theory Spec2Isabelle
  imports Complex_Main "HOL-Library.Char_ord" "HOL-Library.List_Lexorder"
begin

section \<open>Data model of \<^verbatim>\<open>modules/GUI/home.py\<close>\<close>

subsection \<open>Numeric cells of a DataFrame column\<close>

text \<open>
  A float64 cell is a finite value or one of the three non-finite values. A finite cell
  holds the rational number the float denotes; every operation that yields a float rounds
  its exact result to the nearest float64, ties to even, and overflows to an infinity,
  as IEEE 754 double precision does. The sign of a zero is not kept: in this file it could
  only decide which of the two infinities a division by zero yields, and both make the
  cast raise. An int64 cell holds an integer.
\<close>

datatype float64 = Fin rat | PInf | NInf | NaN

datatype cell = I64 int | F64 float64

text \<open>Rounding half to even, as \<^verbatim>\<open>numpy.rint\<close> and the hardware do.\<close>

definition round_half_even :: "rat \<Rightarrow> int" where
  "round_half_even q =
     (let f = \<lfloor>q\<rfloor>; d = q - of_int f
      in if d < 1 / 2 then f
         else if 1 / 2 < d then f + 1
         else if even f then f else f + 1)"

definition pow2 :: "int \<Rightarrow> rat" where
  "pow2 e = (if 0 \<le> e then 2 ^ nat e else 1 / 2 ^ nat (- e))"

text \<open>The binary exponent of a positive number, kept within the exponents of float64:
  the greatest \<open>e\<close> from -1022 to 1024 with \<open>2 ^ e \<le> a\<close>, and -1022 when there is none
  (the subnormal range).\<close>

fun halvings :: "nat \<Rightarrow> rat \<Rightarrow> int" where
  "halvings n a = (if n = 0 \<or> a < 2 then 0 else 1 + halvings (n - 1) (a / 2))"

fun doublings :: "nat \<Rightarrow> rat \<Rightarrow> int" where
  "doublings n a = (if n = 0 \<or> 1 \<le> a then 0 else 1 + doublings (n - 1) (2 * a))"

declare halvings.simps [simp del] doublings.simps [simp del]

definition exponent :: "rat \<Rightarrow> int" where
  "exponent a = (if 1 \<le> a then halvings 1024 a else - doublings 1022 a)"

text \<open>The float64 nearest to a rational: 53 significant bits, so the floats around
  \<open>a\<close> are the multiples of \<open>2 ^ (exponent a - 52)\<close>; a result of magnitude
  \<open>2 ^ 1024\<close> or more is an infinity.\<close>

definition round_float64 :: "rat \<Rightarrow> float64" where
  "round_float64 q =
     (if q = 0 then Fin 0
      else (let ulp = pow2 (exponent \<bar>q\<bar> - 52);
                x = of_int (round_half_even (\<bar>q\<bar> / ulp)) * ulp
            in if pow2 1024 \<le> x then (if 0 < q then PInf else NInf)
               else Fin (if 0 < q then x else - x)))"

text \<open>An int64 column is converted to float64 before it is divided.\<close>

fun to_float :: "cell \<Rightarrow> float64" where
  "to_float (I64 i) = round_float64 (of_int i)"
| "to_float (F64 f) = f"

text \<open>Element-wise \<^verbatim>\<open>/\<close> of two numeric columns: pandas divides in float64 and yields
  \<^verbatim>\<open>inf\<close> or \<^verbatim>\<open>nan\<close> on a zero divisor instead of raising.\<close>

fun fdiv :: "float64 \<Rightarrow> float64 \<Rightarrow> float64" where
  "fdiv NaN _ = NaN"
| "fdiv _ NaN = NaN"
| "fdiv (Fin a) (Fin b) =
     (if b = 0 then (if a = 0 then NaN else if 0 < a then PInf else NInf)
      else round_float64 (a / b))"
| "fdiv (Fin a) PInf = Fin 0"
| "fdiv (Fin a) NInf = Fin 0"
| "fdiv PInf (Fin b) = (if b < 0 then NInf else PInf)"
| "fdiv NInf (Fin b) = (if b < 0 then PInf else NInf)"
| "fdiv PInf PInf = NaN"
| "fdiv PInf NInf = NaN"
| "fdiv NInf PInf = NaN"
| "fdiv NInf NInf = NaN"

definition truediv :: "cell \<Rightarrow> cell \<Rightarrow> float64" where
  "truediv a b = fdiv (to_float a) (to_float b)"

text \<open>\<^verbatim>\<open>Series.round()\<close> rounds half to even and keeps the float64 dtype; the integer
  nearest to a float64 is a float64.\<close>

fun round_f :: "float64 \<Rightarrow> float64" where
  "round_f (Fin q) = Fin (of_int (round_half_even q))"
| "round_f x = x"

text \<open>\<^verbatim>\<open>Series.astype(int)\<close> raises \<^verbatim>\<open>IntCastingNaNError\<close> (a \<^verbatim>\<open>ValueError\<close>) for the
  whole column as soon as one value is not finite. Otherwise every value is truncated
  toward zero and stored as an int64; a value outside the int64 range is not rejected:
  the conversion of the processor stores the least int64 for it.\<close>

datatype error = ValueError | IntCastingNaNError | AttributeError

definition trunc :: "rat \<Rightarrow> int" where
  "trunc q = (if 0 \<le> q then \<lfloor>q\<rfloor> else \<lceil>q\<rceil>)"

definition cast_int64 :: "rat \<Rightarrow> int" where
  "cast_int64 q =
     (let t = trunc q
      in if - (2 ^ 63) \<le> t \<and> t < 2 ^ 63 then t else - (2 ^ 63))"

fun astype_int :: "float64 list \<Rightarrow> error + cell list" where
  "astype_int [] = Inr []"
| "astype_int (Fin q # xs) =
     (case astype_int xs of Inl e \<Rightarrow> Inl e | Inr ys \<Rightarrow> Inr (I64 (cast_int64 q) # ys))"
| "astype_int (_ # xs) = Inl IntCastingNaNError"

subsection \<open>Records of a dataset\<close>

text \<open>A row carries the three columns the sidebar reads; every other column of the
  fetched frame lives in the extension slot of the record.\<close>

record row =
  valeur_fonciere :: cell
  surface_reelle_bati :: cell
  type_local :: string

type_synonym 'a dataframe = "'a row_scheme list"

subsection \<open>Property types offered by the sidebar\<close>

text \<open>\<^verbatim>\<open>Series.unique()\<close> keeps the first occurrence of every value, in order of
  appearance; \<^verbatim>\<open>sorted\<close> orders Python strings by code point, which is the
  lexicographic order of their bytes.\<close>

definition unique :: "'b list \<Rightarrow> 'b list" where
  "unique xs = rev (remdups (rev xs))"

definition local_types_of :: "'a dataframe \<Rightarrow> string list" where
  "local_types_of df = sort (unique (map type_local df))"

subsection \<open>Price per square metre\<close>

text \<open>Lines 161--168: the right-hand side is evaluated for the whole column first; the
  column is assigned only when the cast has not raised.\<close>

definition price_per_area :: "'a dataframe \<Rightarrow> error + cell list" where
  "price_per_area df =
     astype_int (map (\<lambda>r. round_f (truediv (valeur_fonciere r) (surface_reelle_bati r))) df)"

definition set_valeur_fonciere :: "cell list \<Rightarrow> 'a dataframe \<Rightarrow> 'a dataframe" where
  "set_valeur_fonciere col df = map (\<lambda>(v, r). r\<lparr>valeur_fonciere := v\<rparr>) (zip col df)"

definition normalization_engine :: "bool \<Rightarrow> 'a dataframe \<Rightarrow> error + 'a dataframe" where
  "normalization_engine normalize_by_area df =
     (if normalize_by_area
      then (case price_per_area df of
              Inl e \<Rightarrow> Inl e
            | Inr col \<Rightarrow> Inr (set_valeur_fonciere col df))
      else Inr df)"

section \<open>Strings and lists as Python has them\<close>

definition digit :: "nat \<Rightarrow> char" where
  "digit n = ''0123456789'' ! (n mod 10)"

text \<open>\<^verbatim>\<open>str(i)\<close> of a non-negative integer, and \<^verbatim>\<open>zfill\<close> of an unsigned numeral.\<close>

fun str :: "nat \<Rightarrow> string" where
  "str n = (if n < 10 then [digit n] else str (n div 10) @ [digit n])"

declare str.simps [simp del]

definition zfill :: "nat \<Rightarrow> string \<Rightarrow> string" where
  "zfill width s = replicate (width - length s) (CHR ''0'') @ s"

text \<open>\<^verbatim>\<open>list.index\<close> and \<^verbatim>\<open>list.remove\<close> raise \<^verbatim>\<open>ValueError\<close> on a missing element.\<close>

fun index_of :: "'b \<Rightarrow> 'b list \<Rightarrow> nat option" where
  "index_of x [] = None"
| "index_of x (y # ys) =
     (if x = y then Some 0 else (case index_of x ys of None \<Rightarrow> None | Some i \<Rightarrow> Some (Suc i)))"

definition list_remove :: "'b \<Rightarrow> 'b list \<Rightarrow> error + 'b list" where
  "list_remove x xs = (if x \<in> set xs then Inr (remove1 x xs) else Inl ValueError)"

text \<open>\<^verbatim>\<open>s.split(" ")\<close>: every separator cuts, so the result is never empty and
  \<^verbatim>\<open>[-1]\<close> is what follows the last separator.\<close>

fun split_on :: "char \<Rightarrow> string \<Rightarrow> string list" where
  "split_on sep [] = [[]]"
| "split_on sep (c # cs) =
     (if c = sep then [] # split_on sep cs
      else (case split_on sep cs of [] \<Rightarrow> [[c]] | w # ws \<Rightarrow> (c # w) # ws))"

text \<open>\<^verbatim>\<open>sub in s\<close> on strings.\<close>

definition startswith :: "string \<Rightarrow> string \<Rightarrow> bool" where
  "startswith s sub = (take (length sub) s = sub)"

declare startswith_def [simp]

fun str_in :: "string \<Rightarrow> string \<Rightarrow> bool" where
  "str_in sub [] = (sub = [])"
| "str_in sub (c # cs) = (startswith (c # cs) sub \<or> str_in sub cs)"

section \<open>The state an evaluation of the script works on\<close>

text \<open>\<^verbatim>\<open>st.session_state\<close>: a dictionary that survives from one run of the script to
  the next.\<close>

datatype pyval = PyNone | PyStr string

type_synonym session = "string \<Rightarrow> pyval option"

text \<open>The calls to the collaborators, in the order the script makes them. A selectbox is
  recorded with its options and its default index, the fetchers with their arguments, the
  sidebar error with the two values it is formatted with.\<close>

datatype 'c call =
    Init_session_state
  | Markdown
  | Fetch_summarized_data
  | Display_sidebar
  | Selectbox_departement "string list" nat
  | Selectbox_annee "string list" nat
  | Call_fetch_data_gouv string string
  | Call_fetch_data_BigQuery 'c string
  | Selectbox_type_de_bien "string list" string
  | Checkbox_prix_au_m2
  | Multiselect_graphiques
  | Divider
  | Expander_chatbot
  | Checkbox_chatbot
  | Selectbox_modele
  | Text_input_api_key
  | Info_api_key
  | Warning_api_key
  | Error_model_unavailable
  | Create_plots
  | Sidebar_error_no_info string string

text \<open>DataFrames are objects: the store maps a reference to the frame it denotes, and
  \<open>next_ref\<close> is the first reference not yet in use.\<close>

record ('a, 'c) world =
  heap :: "nat \<Rightarrow> 'a dataframe"
  next_ref :: nat
  session_state :: session
  calls :: "'c call list"

definition emit :: "'c call \<Rightarrow> ('a, 'c) world \<Rightarrow> ('a, 'c) world" where
  "emit c w = w\<lparr>calls := calls w @ [c]\<rparr>"

text \<open>What the collaborators outside this file provide: the two fetchers (a reference
  to a frame, or \<open>None\<close>), the BigQuery credentials, the catalogue entry
  \<^verbatim>\<open>available_years_datagouv\<close> of \<^verbatim>\<open>data_URL()\<close> with every year as the f-string
  prints it, and \<^verbatim>\<open>init_session_state\<close>.\<close>

record 'c env =
  fetch_data_gouv :: "string \<Rightarrow> string \<Rightarrow> nat option"
  fetch_data_BigQuery :: "'c \<Rightarrow> string \<Rightarrow> nat option"
  bigquery_cred :: 'c
  available_years_datagouv :: "string list"
  init_session_state :: "session \<Rightarrow> session"

text \<open>What the widgets return to the script in one evaluation.\<close>

record inputs =
  pick_department :: string
  pick_year :: string
  pick_local_type :: "string option"
  pick_normalize :: bool
  pick_plots :: "string list"
  pick_chatbot :: bool
  pick_model :: string
  pick_api_key :: string

text \<open>The attributes of the \<^verbatim>\<open>App\<close> object. Those of \<open>sidebar\<close> are assigned only
  when a frame was fetched.\<close>

record sidebar =
  local_types :: "string list"
  selected_local_type :: "string option"
  normalize_by_area :: bool
  selected_plots :: "string list"
  chatbot_checkbox :: bool
  selected_model :: string
  model_api_key :: string

record app =
  selected_department :: string
  selected_year :: string
  properties_input :: "nat option"
  sidebar :: "sidebar option"

section \<open>\<^verbatim>\<open>App.initial_request\<close>\<close>

subsection \<open>Lines 99--105: the department selectbox\<close>

definition build_departments :: "error + string list" where
  "build_departments =
     (case list_remove ''20'' (map (\<lambda>i. zfill 2 (str i)) [1..<96]) of
        Inl e \<Rightarrow> Inl e
      | Inr departments \<Rightarrow>
          Inr (departments @ [''971'', ''972'', ''973'', ''974'', ''2A'', ''2B'']))"

definition department_selectbox ::
  "inputs \<Rightarrow> ('a, 'c) world \<Rightarrow> ('a, 'c) world \<times> (error + string)" where
  "department_selectbox inp w =
     (case build_departments of
        Inl e \<Rightarrow> (w, Inl e)
      | Inr departments \<Rightarrow>
          (case index_of ''06'' departments of
             None \<Rightarrow> (w, Inl ValueError)
           | Some default_dept \<Rightarrow>
               (emit (Selectbox_departement departments default_dept) w,
                Inr (pick_department inp))))"

subsection \<open>Lines 107--119: the postcode is reset when the department has changed\<close>

definition del_if_present :: "string \<Rightarrow> session \<Rightarrow> session" where
  "del_if_present k ss = (if ss k \<noteq> None then ss(k := None) else ss)"

definition reset_postcode :: "string \<Rightarrow> session \<Rightarrow> session" where
  "reset_postcode department ss =
     (let ss1 =
        (if ss ''previous_selected_department'' \<noteq> None
            \<and> ss ''previous_selected_department'' \<noteq> Some (PyStr department)
         then del_if_present ''selected_postcode''
                (del_if_present ''selected_postcode_title'' ss)
         else ss)
      in ss1(''previous_selected_department'' \<mapsto> PyStr department))"

subsection \<open>Lines 122--132: the year selectbox\<close>

text \<open>\<^verbatim>\<open>.split(" ")[-1]\<close>: the year the script keeps from the label picked.\<close>

definition year_of_label :: "string \<Rightarrow> string" where
  "year_of_label label = last (split_on (CHR '' '') label)"

definition year_selectbox ::
  "'c env \<Rightarrow> inputs \<Rightarrow> ('a, 'c) world \<Rightarrow> ('a, 'c) world \<times> (error + string)" where
  "year_selectbox env inp w =
     (let years = map (\<lambda>year. ''Vendus en '' @ year) (available_years_datagouv env)
      in case index_of ''Vendus en 2023'' years of
           None \<Rightarrow> (w, Inl ValueError)
         | Some default_year \<Rightarrow>
             (emit (Selectbox_annee years default_year) w,
              Inr (year_of_label (pick_year inp))))"

subsection \<open>Lines 135--142: one of the two fetchers\<close>

definition load_data ::
  "'c env \<Rightarrow> string \<Rightarrow> string \<Rightarrow> ('a, 'c) world \<Rightarrow> ('a, 'c) world \<times> nat option" where
  "load_data env department year w =
     (if \<not> str_in ''2024'' year
      then (emit (Call_fetch_data_gouv department year) w,
            fetch_data_gouv env department year)
      else (emit (Call_fetch_data_BigQuery (bigquery_cred env) department) w,
            fetch_data_BigQuery env (bigquery_cred env) department))"

subsection \<open>Lines 144--206: the sidebar of a fetched frame\<close>

text \<open>\<^verbatim>\<open>DataFrame.copy()\<close> makes a new object with the same rows.\<close>

definition df_copy :: "nat \<Rightarrow> ('a, 'c) world \<Rightarrow> ('a, 'c) world \<times> nat" where
  "df_copy a w =
     (w\<lparr>heap := (heap w)(next_ref w := heap w a), next_ref := Suc (next_ref w)\<rparr>,
      next_ref w)"

text \<open>A widget created with a key stores its value in the session under that key.\<close>

definition type_selectbox ::
  "string list \<Rightarrow> string \<Rightarrow> string option \<Rightarrow> ('a, 'c) world \<Rightarrow> ('a, 'c) world" where
  "type_selectbox options key pick w =
     (emit (Selectbox_type_de_bien options key) w)
       \<lparr>session_state :=
          (session_state w)(key \<mapsto> (case pick of None \<Rightarrow> PyNone | Some t \<Rightarrow> PyStr t))\<rparr>"

text \<open>Lines 158--168: the checkbox, then the column of the frame is overwritten.\<close>

definition normalize_in_place ::
  "bool \<Rightarrow> nat \<Rightarrow> ('a, 'c) world \<Rightarrow> ('a, 'c) world \<times> (error + unit)" where
  "normalize_in_place flag a w =
     (let w1 = emit Checkbox_prix_au_m2 w
      in case normalization_engine flag (heap w1 a) of
           Inl e \<Rightarrow> (w1, Inl e)
         | Inr df \<Rightarrow> (w1\<lparr>heap := (heap w1)(a := df)\<rparr>, Inr ()))"

text \<open>Lines 171--204: the plot selection and the chatbot expander.\<close>

definition chatbot_widgets :: "inputs \<Rightarrow> ('a, 'c) world \<Rightarrow> ('a, 'c) world" where
  "chatbot_widgets inp w =
     (let w1 = emit Info_api_key (emit Text_input_api_key (emit Selectbox_modele
                 (emit Checkbox_chatbot (emit Expander_chatbot (emit Divider
                   (emit Multiselect_graphiques w))))))
      in if pick_chatbot inp
         then (if str_in ''GPT'' (pick_model inp)
               then (if pick_api_key inp = [] then emit Warning_api_key w1 else w1)
               else emit Error_model_unavailable w1)
         else w1)"

definition setup_sidebar ::
  "inputs \<Rightarrow> string \<Rightarrow> string \<Rightarrow> nat \<Rightarrow> ('a, 'c) world
     \<Rightarrow> ('a, 'c) world \<times> (error + nat \<times> sidebar)" where
  "setup_sidebar inp department year fetched w =
     (let (w1, a) = df_copy fetched w;
          types = local_types_of (heap w1 a);
          selectbox_key = ''local_type_'' @ department @ ''_'' @ year;
          w2 = type_selectbox types selectbox_key (pick_local_type inp) w1;
          (w3, r) = normalize_in_place (pick_normalize inp) a w2
      in case r of
           Inl e \<Rightarrow> (w3, Inl e)
         | Inr _ \<Rightarrow>
             (chatbot_widgets inp w3,
              Inr (a, \<lparr>local_types = types,
                       selected_local_type = pick_local_type inp,
                       normalize_by_area = pick_normalize inp,
                       selected_plots = pick_plots inp,
                       chatbot_checkbox = pick_chatbot inp,
                       selected_model = pick_model inp,
                       model_api_key = pick_api_key inp\<rparr>)))"

subsection \<open>The whole method\<close>

definition initial_request ::
  "'c env \<Rightarrow> inputs \<Rightarrow> ('a, 'c) world \<Rightarrow> ('a, 'c) world \<times> (error + app)" where
  "initial_request env inp w =
     (case department_selectbox inp w of
        (w1, Inl e) \<Rightarrow> (w1, Inl e)
      | (w1, Inr department) \<Rightarrow>
          (let w2 = w1\<lparr>session_state := reset_postcode department (session_state w1)\<rparr>
           in case year_selectbox env inp w2 of
                (w3, Inl e) \<Rightarrow> (w3, Inl e)
              | (w3, Inr year) \<Rightarrow>
                  (case load_data env department year w3 of
                     (w4, None) \<Rightarrow>
                       (w4, Inr \<lparr>selected_department = department, selected_year = year,
                                 properties_input = None, sidebar = None\<rparr>)
                   | (w4, Some fetched) \<Rightarrow>
                       (case setup_sidebar inp department year fetched w4 of
                          (w5, Inl e) \<Rightarrow> (w5, Inl e)
                        | (w5, Inr (a, sb)) \<Rightarrow>
                            (w5, Inr \<lparr>selected_department = department,
                                      selected_year = year,
                                      properties_input = Some a,
                                      sidebar = Some sb\<rparr>)))))"

section \<open>\<^verbatim>\<open>App.__init__\<close>\<close>

text \<open>Lines 49--72. \<^verbatim>\<open>self.local_types\<close> is read only behind the \<^verbatim>\<open>isinstance\<close>
  test; reading an attribute that was never assigned raises \<^verbatim>\<open>AttributeError\<close>.\<close>

definition show_result :: "app \<Rightarrow> ('a, 'c) world \<Rightarrow> ('a, 'c) world \<times> (error + app)" where
  "show_result a w =
     (case properties_input a of
        None \<Rightarrow> (w, Inr a)
      | Some _ \<Rightarrow>
          (case sidebar a of
             None \<Rightarrow> (w, Inl AttributeError)
           | Some sb \<Rightarrow>
               (if local_types sb \<noteq> []
                then (emit Create_plots w, Inr a)
                else (emit (Sidebar_error_no_info (selected_department a) (selected_year a)) w,
                      Inr a))))"

definition app_init ::
  "'c env \<Rightarrow> inputs \<Rightarrow> ('a, 'c) world \<Rightarrow> ('a, 'c) world \<times> (error + app)" where
  "app_init env inp w =
     (let w1 = (emit Init_session_state w)
                 \<lparr>session_state := init_session_state env (session_state w)\<rparr>;
          w2 = emit Display_sidebar (emit Fetch_summarized_data (emit Markdown w1))
      in case initial_request env inp w2 of
           (w3, Inl e) \<Rightarrow> (w3, Inl e)
         | (w3, Inr a) \<Rightarrow> show_result a w3)"

section \<open>Notions the properties are stated with\<close>

text \<open>The list the department selectbox is built from.\<close>

definition departments :: "string list" where
  "departments =
     remove1 ''20'' (map (\<lambda>i. zfill 2 (str i)) [1..<96])
       @ [''971'', ''972'', ''973'', ''974'', ''2A'', ''2B'']"


text \<open>The calls an evaluation has added to those made before it.\<close>

definition new_calls :: "('a, 'c) world \<Rightarrow> ('a, 'c) world \<Rightarrow> 'c call list" where
  "new_calls w w' = drop (length (calls w)) (calls w')"

text \<open>The calls of lines 171--204, in order.\<close>

definition chatbot_trace :: "inputs \<Rightarrow> 'c call list" where
  "chatbot_trace inp =
     [Multiselect_graphiques, Divider, Expander_chatbot, Checkbox_chatbot,
      Selectbox_modele, Text_input_api_key, Info_api_key]
     @ (if pick_chatbot inp
        then (if str_in ''GPT'' (pick_model inp)
              then (if pick_api_key inp = [] then [Warning_api_key] else [])
              else [Error_model_unavailable])
        else [])"

text \<open>What an evaluation leaves in \<^verbatim>\<open>self.properties_input\<close>: the exception it
  stopped with, \<open>None\<close>, or the rows of the frame the attribute refers to.\<close>

definition result_frame ::
  "('a, 'c) world \<times> (error + app) \<Rightarrow> error + 'a dataframe option" where
  "result_frame out =
     (case snd out of
        Inl e \<Rightarrow> Inl e
      | Inr a \<Rightarrow> Inr (map_option (heap (fst out)) (properties_input a)))"

section \<open>A concrete configuration\<close>

definition ex_rows :: "row list" where
  "ex_rows =
     [\<lparr>valeur_fonciere = F64 (Fin 150000), surface_reelle_bati = F64 (Fin 50),
       type_local = ''Maison''\<rparr>,
      \<lparr>valeur_fonciere = F64 (Fin 200000), surface_reelle_bati = I64 80,
       type_local = ''Appartement''\<rparr>,
      \<lparr>valeur_fonciere = I64 90000, surface_reelle_bati = F64 (Fin 36),
       type_local = ''Maison''\<rparr>]"

definition ex_rows_per_area :: "row list" where
  "ex_rows_per_area =
     [\<lparr>valeur_fonciere = I64 3000, surface_reelle_bati = F64 (Fin 50),
       type_local = ''Maison''\<rparr>,
      \<lparr>valeur_fonciere = I64 2500, surface_reelle_bati = I64 80,
       type_local = ''Appartement''\<rparr>,
      \<lparr>valeur_fonciere = I64 2500, surface_reelle_bati = F64 (Fin 36),
       type_local = ''Maison''\<rparr>]"

text \<open>Rows on which float64 differs from exact arithmetic: a quotient just below 1.5
  that float64 rounds to 1.5, an int64 price above \<open>2 ^ 53\<close>, and a price of \<open>2 ^ 63\<close>.\<close>

definition ex_inexact :: "row list" where
  "ex_inexact =
     [\<lparr>valeur_fonciere = F64 (Fin 6755399441055745),
       surface_reelle_bati = F64 (Fin 4503599627370497), type_local = ''Maison''\<rparr>,
      \<lparr>valeur_fonciere = I64 9007199254740993,
       surface_reelle_bati = I64 1, type_local = ''Maison''\<rparr>,
      \<lparr>valeur_fonciere = F64 (Fin 9223372036854775808),
       surface_reelle_bati = I64 1, type_local = ''Maison''\<rparr>]"

definition ex_inexact_per_area :: "row list" where
  "ex_inexact_per_area =
     [\<lparr>valeur_fonciere = I64 2,
       surface_reelle_bati = F64 (Fin 4503599627370497), type_local = ''Maison''\<rparr>,
      \<lparr>valeur_fonciere = I64 9007199254740992,
       surface_reelle_bati = I64 1, type_local = ''Maison''\<rparr>,
      \<lparr>valeur_fonciere = I64 (- 9223372036854775808),
       surface_reelle_bati = I64 1, type_local = ''Maison''\<rparr>]"

text \<open>A row of finite cells and positive area whose quotient, \<open>2 ^ 1033\<close>, is beyond
  float64.\<close>

definition ex_overflow :: "row list" where
  "ex_overflow =
     [\<lparr>valeur_fonciere = F64 (Fin (2 ^ 1023)), surface_reelle_bati = F64 (Fin (1 / 1024)),
       type_local = ''Maison''\<rparr>]"

definition ex_negative :: "row list" where
  "ex_negative =
     [\<lparr>valeur_fonciere = F64 (Fin 100000), surface_reelle_bati = F64 (Fin (- 50)),
       type_local = ''Maison''\<rparr>]"

definition ex_zero :: "row list" where
  "ex_zero =
     [\<lparr>valeur_fonciere = F64 (Fin 150000), surface_reelle_bati = F64 (Fin 50),
       type_local = ''Maison''\<rparr>,
      \<lparr>valeur_fonciere = F64 (Fin 100000), surface_reelle_bati = F64 (Fin 0),
       type_local = ''Appartement''\<rparr>]"

text \<open>An archive that holds frame 0 for department 06, the empty frame 1 for
  department 07 and nothing else; a warehouse that holds frame 0 for department 06.\<close>

definition ex_env :: "nat env" where
  "ex_env =
     \<lparr>fetch_data_gouv =
        (\<lambda>d y. if d = ''06'' then Some 0 else if d = ''07'' then Some 1 else None),
      fetch_data_BigQuery = (\<lambda>c d. if d = ''06'' then Some 0 else None),
      bigquery_cred = 42,
      available_years_datagouv = [''2021'', ''2022'', ''2023'', ''2024''],
      init_session_state = (\<lambda>ss. ss)\<rparr>"

definition ex_inputs :: "string \<Rightarrow> string \<Rightarrow> bool \<Rightarrow> inputs" where
  "ex_inputs department label flag =
     \<lparr>pick_department = department, pick_year = label,
      pick_local_type = None, pick_normalize = flag,
      pick_plots = [''Carte''], pick_chatbot = False,
      pick_model = ''GPT 4'', pick_api_key = []\<rparr>"

definition ex_session :: session where
  "ex_session =
     [''previous_selected_department'' \<mapsto> PyStr ''75'',
      ''selected_postcode'' \<mapsto> PyStr ''75011'']"

definition ex_world :: "(unit, nat) world" where
  "ex_world =
     \<lparr>heap = (\<lambda>_. [])(0 := ex_rows), next_ref = 2,
      session_state = ex_session, calls = []\<rparr>"

section \<open>Facts about the helpers\<close>

lemma in_set_map_zfill: "''20'' \<in> set (map (\<lambda>i. zfill 2 (str i)) [1..<96])"
  by code_simp

lemma build_departments_eq: "build_departments = Inr departments"
  by (simp only: build_departments_def list_remove_def departments_def in_set_map_zfill
        if_True sum.case)

lemma index_06: "index_of ''06'' departments = Some 5"
  by code_simp

lemma index_of_None_iff: "index_of x xs = None \<longleftrightarrow> x \<notin> set xs"
  by (induction xs) (auto split: option.splits)

lemma index_of_in_set: "x \<in> set xs \<Longrightarrow> \<exists>i. index_of x xs = Some i"
  using index_of_None_iff [of x xs] by (cases "index_of x xs") auto






section \<open>The property types\<close>

lemma set_unique: "set (unique xs) = set xs"
  by (simp add: unique_def)

lemma distinct_unique: "distinct (unique xs)"
  by (simp add: unique_def)

text \<open>
  C7. For every dataset, the list of property types the sidebar offers is in ascending
  lexical order and holds no value twice; it holds exactly the values of the column
  \<^verbatim>\<open>type_local\<close>.
\<close>

theorem local_types_sorted_distinct:
  "sorted (local_types_of df) \<and> distinct (local_types_of df)
     \<and> set (local_types_of df) = type_local ` set df"
  by (simp add: local_types_of_def distinct_unique set_unique)

section \<open>The arithmetic of float64\<close>

text \<open>A quotient of magnitude below \<open>2 ^ 1023\<close> does not overflow: with finite cells and
  an area other than zero, the float64 quotient is then finite.\<close>

lemma pow2_powi: "pow2 e = 2 powi e"
  by (simp add: pow2_def power_int_def inverse_eq_divide power_one_over)

lemma pow2_pos: "0 < pow2 e"
  by (simp add: pow2_powi)

lemma pow2_add: "pow2 (i + j) = pow2 i * pow2 j"
  by (simp add: pow2_powi power_int_add)

lemma pow2_numeral: "pow2 (numeral k) = 2 ^ numeral k"
  by (simp add: pow2_def)

lemma pow2_one: "pow2 1 = 2"
  by (simp add: pow2_def)

lemma pow2_zero: "pow2 0 = 1"
  by (simp add: pow2_def)

lemma pow2_Suc: "pow2 (1 + e) = 2 * pow2 e" "pow2 (e + 1) = 2 * pow2 e"
  using pow2_add [of 1 e] pow2_add [of e 1] by (simp_all add: pow2_one)

lemma pow2_mono: "i \<le> j \<Longrightarrow> pow2 i \<le> pow2 j"
  by (simp add: pow2_powi power_int_increasing)

lemma pow2_strict_mono: "i < j \<Longrightarrow> pow2 i < pow2 j"
  by (simp add: pow2_powi power_int_strict_increasing)

lemma halvings_bounds:
  "0 \<le> halvings n a \<and> (1 \<le> a \<longrightarrow> pow2 (halvings n a) \<le> a)
     \<and> (a < 2 * 2 ^ n \<longrightarrow> a < pow2 (halvings n a + 1))"
proof (induction n a rule: halvings.induct)
  case (1 n a)
  show ?case
  proof (cases "n = 0 \<or> a < 2")
    case True
    then show ?thesis
      by (auto simp: halvings.simps [of n a] pow2_zero pow2_one)
  next
    case False
    then have n: "n \<noteq> 0" and a: "2 \<le> a" by auto
    let ?h = "halvings (n - 1) (a / 2)"
    have h: "halvings n a = 1 + ?h"
      using False by (simp add: halvings.simps [of n a])
    from "1.IH" [OF False] have ih: "0 \<le> ?h" "pow2 ?h \<le> a / 2"
      "a / 2 < 2 * 2 ^ (n - 1) \<longrightarrow> a / 2 < pow2 (?h + 1)"
      using a by auto
    have p: "pow2 (1 + ?h) = 2 * pow2 ?h" "pow2 (1 + ?h + 1) = 2 * pow2 (?h + 1)"
      using pow2_Suc(1) [of ?h] pow2_Suc(1) [of "?h + 1"] by (simp_all add: add.assoc)
    have "2 * 2 ^ n = 2 * (2 * 2 ^ (n - 1) :: rat)"
      using n by (cases n) auto
    with ih show ?thesis
      unfolding h p by auto
  qed
qed

lemma doublings_bounds:
  "0 \<le> doublings n a \<and> (a < 2 \<longrightarrow> a * pow2 (doublings n a) < 2)"
proof (induction n a rule: doublings.induct)
  case (1 n a)
  show ?case
  proof (cases "n = 0 \<or> 1 \<le> a")
    case True
    then show ?thesis
      by (auto simp: doublings.simps [of n a] pow2_zero)
  next
    case False
    let ?d = "doublings (n - 1) (2 * a)"
    have d: "doublings n a = 1 + ?d"
      using False by (simp add: doublings.simps [of n a])
    from "1.IH" [OF False] False have ih: "0 \<le> ?d" "2 * a * pow2 ?d < 2"
      by auto
    have "pow2 (1 + ?d) = 2 * pow2 ?d"
      by (rule pow2_Suc)
    with ih show ?thesis
      unfolding d by (simp add: mult.assoc mult.left_commute)
  qed
qed

lemma exponent_upper:
  assumes "0 < a" "a < 2 ^ 1023"
  shows "a < pow2 (exponent a + 1)" and "exponent a \<le> 1022"
proof -
  show "a < pow2 (exponent a + 1)"
  proof (cases "1 \<le> a")
    case True
    have "a < 2 * 2 ^ 1024" using assms(2) by simp
    with halvings_bounds [of 1024 a] True show ?thesis by (simp add: exponent_def)
  next
    case False
    let ?d = "doublings 1022 a"
    from doublings_bounds [of 1022 a] False have "a * pow2 ?d < 2" by auto
    moreover have "pow2 (- ?d + 1) * pow2 ?d = 2"
      using pow2_add [of "- ?d + 1" ?d] by (simp add: pow2_one)
    ultimately have "a * pow2 ?d < pow2 (- ?d + 1) * pow2 ?d" by simp
    then have "a < pow2 (- ?d + 1)"
      using pow2_pos [of ?d] by simp
    with False show ?thesis by (simp add: exponent_def)
  qed
  show "exponent a \<le> 1022"
  proof (cases "1 \<le> a")
    case True
    with halvings_bounds [of 1024 a] have "pow2 (halvings 1024 a) \<le> a" by simp
    also have "a < pow2 1023" using assms(2) by (simp add: pow2_numeral)
    finally have "halvings 1024 a < 1023"
      using pow2_mono [of 1023 "halvings 1024 a"] by (cases "halvings 1024 a < 1023") auto
    with True show ?thesis by (simp add: exponent_def)
  next
    case False
    with doublings_bounds [of 1022 a] show ?thesis by (simp add: exponent_def)
  qed
qed

lemma round_half_even_le:
  assumes "q \<le> of_int k"
  shows "round_half_even q \<le> k"
proof -
  have f: "\<lfloor>q\<rfloor> \<le> k" using floor_mono [OF assms] by simp
  show ?thesis
  proof (cases "q = of_int \<lfloor>q\<rfloor>")
    case True
    then have "q - of_int \<lfloor>q\<rfloor> = 0" by simp
    then show ?thesis using f by (simp add: round_half_even_def Let_def)
  next
    case False
    then have "of_int \<lfloor>q\<rfloor> < q" using of_int_floor_le [of q] by linarith
    with assms have "\<lfloor>q\<rfloor> < k" by linarith
    then show ?thesis by (auto simp: round_half_even_def Let_def)
  qed
qed

lemma round_float64_finite:
  assumes "\<bar>q\<bar> < 2 ^ 1023"
  shows "\<exists>x. round_float64 q = Fin x"
proof (cases "q = 0")
  case True
  then show ?thesis by (simp add: round_float64_def)
next
  case False
  let ?a = "\<bar>q\<bar>"
  let ?e = "exponent ?a"
  let ?ulp = "pow2 (?e - 52)"
  let ?m = "round_half_even (?a / ?ulp)"
  from False have pos: "0 < ?a" by simp
  note ex = exponent_upper [OF pos assms]
  have "?a < pow2 (?e + 1)" by (rule ex(1))
  also have "pow2 (?e + 1) = 2 ^ 53 * ?ulp"
    using pow2_add [of 53 "?e - 52"] by (simp add: pow2_numeral add.commute)
  finally have "?a / ?ulp < 2 ^ 53"
    using pow2_pos [of "?e - 52"] by (simp add: pos_divide_less_eq)
  then have "?a / ?ulp \<le> of_int (2 ^ 53)" by simp
  then have "?m \<le> 2 ^ 53" by (rule round_half_even_le)
  then have "(of_int ?m :: rat) \<le> 2 ^ 53"
    by (metis of_int_le_iff of_int_numeral of_int_power)
  then have "of_int ?m * ?ulp \<le> 2 ^ 53 * ?ulp"
    using pow2_pos [of "?e - 52"] by simp
  also have "2 ^ 53 * ?ulp = pow2 (?e + 1)"
    using pow2_add [of 53 "?e - 52"] by (simp add: pow2_numeral add.commute)
  also have "pow2 (?e + 1) \<le> pow2 1023"
    using ex(2) by (intro pow2_mono) simp
  also have "pow2 1023 < pow2 1024" by (intro pow2_strict_mono) simp
  finally have "\<not> pow2 1024 \<le> of_int ?m * ?ulp" by simp
  then show ?thesis
    using False by (simp add: round_float64_def Let_def)
qed

lemma truediv_finite:
  assumes "to_float v = Fin a" "to_float s = Fin b" "b \<noteq> 0" "\<bar>a / b\<bar> < 2 ^ 1023"
  shows "\<exists>q. truediv v s = Fin q"
  using assms round_float64_finite [of "a / b"] by (simp add: truediv_def)

section \<open>The price per square metre\<close>

lemma astype_int_error: "astype_int xs = Inl e \<Longrightarrow> e = IntCastingNaNError"
  by (induction xs rule: astype_int.induct) (auto split: sum.splits)

lemma astype_int_length: "astype_int xs = Inr ys \<Longrightarrow> length ys = length xs"
  by (induction xs arbitrary: ys rule: astype_int.induct) (auto split: sum.splits)

lemma astype_int_not_finite:
  "x \<in> set xs \<Longrightarrow> \<forall>q. x \<noteq> Fin q \<Longrightarrow> astype_int xs = Inl IntCastingNaNError"
  by (induction xs rule: astype_int.induct) (auto split: sum.splits dest: astype_int_error)

lemma astype_int_I64: "astype_int xs = Inr ys \<Longrightarrow> y \<in> set ys \<Longrightarrow> \<exists>k. y = I64 k"
  by (induction xs arbitrary: ys rule: astype_int.induct) (auto split: sum.splits)

lemma cast_int64_of_int:
  "cast_int64 (of_int k) = (if - (2 ^ 63) \<le> k \<and> k < 2 ^ 63 then k else - (2 ^ 63))"
  by (simp add: cast_int64_def trunc_def)

lemma floor_rat_numeral_div:
  "\<lfloor>(numeral a :: rat) / numeral b\<rfloor> = numeral a div numeral b"
  using floor_divide_of_int_eq [of "numeral a" "numeral b", where ?'a = rat] by simp

lemma fdiv_zero_not_finite: "fdiv x (Fin 0) \<noteq> Fin q"
  by (cases x) auto

lemma round_f_Fin_iff: "round_f x = Fin q \<longleftrightarrow> (\<exists>p. x = Fin p \<and> q = of_int (round_half_even p))"
  by (cases x) auto

lemma price_per_area_length: "price_per_area df = Inr col \<Longrightarrow> length col = length df"
  by (auto simp: price_per_area_def dest: astype_int_length)

lemma type_local_set_valeur_fonciere:
  "length col = length df \<Longrightarrow> map type_local (set_valeur_fonciere col df) = map type_local df"
  unfolding set_valeur_fonciere_def
  by (induction col df rule: list_induct2) auto

lemma normalize_error: "normalization_engine flag df = Inl e \<Longrightarrow> e = IntCastingNaNError"
  by (auto simp: normalization_engine_def price_per_area_def split: if_splits sum.splits dest: astype_int_error)

lemma normalize_type_local:
  "normalization_engine flag df = Inr out \<Longrightarrow> map type_local out = map type_local df"
  by (auto simp: normalization_engine_def split: if_splits sum.splits
      dest!: price_per_area_length intro: type_local_set_valeur_fonciere)

lemma normalize_Nil: "normalization_engine flag [] = Inr []"
  by (simp add: normalization_engine_def price_per_area_def set_valeur_fonciere_def)

lemma normalize_Cons:
  "normalization_engine True (r # df) =
     (case round_f (truediv (valeur_fonciere r) (surface_reelle_bati r)) of
        Fin q \<Rightarrow> (case normalization_engine True df of
                    Inl e \<Rightarrow> Inl e
                  | Inr out \<Rightarrow> Inr (r\<lparr>valeur_fonciere := I64 (cast_int64 q)\<rparr> # out))
      | _ \<Rightarrow> Inl IntCastingNaNError)"
  by (simp add: normalization_engine_def price_per_area_def set_valeur_fonciere_def
      split: float64.splits sum.splits)

lemma normalize_zero_area:
  assumes "r \<in> set df" "to_float (surface_reelle_bati r) = Fin 0"
  shows "normalization_engine True df = Inl IntCastingNaNError"
proof -
  let ?x = "round_f (truediv (valeur_fonciere r) (surface_reelle_bati r))"
  have "\<forall>q. ?x \<noteq> Fin q"
    using assms(2) by (simp add: truediv_def round_f_Fin_iff fdiv_zero_not_finite)
  moreover have "?x \<in> set (map (\<lambda>r. round_f (truediv (valeur_fonciere r) (surface_reelle_bati r))) df)"
    using assms(1) by auto
  ultimately have "price_per_area df = Inl IntCastingNaNError"
    unfolding price_per_area_def by (rule astype_int_not_finite [rotated])
  then show ?thesis by (simp add: normalization_engine_def)
qed

lemma normalize_rows:
  "normalization_engine True df = Inr out \<Longrightarrow> list_all2 (\<lambda>r r'. \<exists>k. r' = r\<lparr>valeur_fonciere := I64 k\<rparr>) df out"
proof (induction df arbitrary: out)
  case Nil
  then show ?case by (simp add: normalize_Nil)
next
  case (Cons r df)
  then show ?case
    by (auto simp: normalize_Cons split: float64.splits sum.splits)
qed


lemma normalize_False: "normalization_engine False df = Inr df"
  by (simp add: normalization_engine_def)

lemmas normalize_eval =
  normalize_Cons normalize_Nil truediv_def round_half_even_def trunc_def cast_int64_def
  round_float64_def exponent_def halvings.simps doublings.simps pow2_def Let_def
  floor_rat_numeral_div

text \<open>
  C3, as the code has it. The claim says that a record whose area is zero or negative is
  excluded or rejected. In the code a zero area makes the cast of the whole column raise
  \<^verbatim>\<open>IntCastingNaNError\<close>, so that no frame is produced at all; a negative area is
  neither excluded nor rejected. Whenever a frame is produced it has the rows of the input,
  each with an int64 price, so no price of an output is infinite or NaN.
\<close>

theorem zero_area_raises_else_integer_prices:
  "((\<exists>r \<in> set df. to_float (surface_reelle_bati r) = Fin 0)
      \<longrightarrow> normalization_engine True df = Inl IntCastingNaNError)
   \<and> (\<forall>out. normalization_engine True df = Inr out
      \<longrightarrow> list_all2 (\<lambda>r r'. \<exists>k. r' = r\<lparr>valeur_fonciere := I64 k\<rparr>) df out)"
  using normalize_zero_area [of _ df] normalize_rows [of df] by blast

theorem zero_area_raises_else_integer_prices_witness:
  "(\<exists>r \<in> set ex_zero. to_float (surface_reelle_bati r) = Fin 0)
   \<and> normalization_engine True ex_zero = Inl IntCastingNaNError
   \<and> normalization_engine True ex_negative =
       Inr [\<lparr>valeur_fonciere = I64 (- 2000), surface_reelle_bati = F64 (Fin (- 50)),
             type_local = ''Maison''\<rparr>]
   \<and> list_all2 (\<lambda>r r'. \<exists>k. r' = r\<lparr>valeur_fonciere := I64 k\<rparr>) ex_negative
       [\<lparr>valeur_fonciere = I64 (- 2000), surface_reelle_bati = F64 (Fin (- 50)),
         type_local = ''Maison''\<rparr>]"
proof -
  have z: "\<exists>r \<in> set ex_zero. to_float (surface_reelle_bati r) = Fin 0"
    by (simp add: ex_zero_def)
  have n: "normalization_engine True ex_negative =
       Inr [\<lparr>valeur_fonciere = I64 (- 2000), surface_reelle_bati = F64 (Fin (- 50)),
             type_local = ''Maison''\<rparr>]"
    by (simp add: ex_negative_def normalize_eval)
  from z n zero_area_raises_else_integer_prices [of ex_zero]
    zero_area_raises_else_integer_prices [of ex_negative]
  show ?thesis by blast
qed

text \<open>The claim of C3 fails on a negative area: the record is kept, with a negative
  price, and nothing is raised.\<close>

theorem negative_area_kept_counterexample:
  "map surface_reelle_bati ex_negative = [F64 (Fin (- 50))]
   \<and> normalization_engine True ex_negative =
       Inr [\<lparr>valeur_fonciere = I64 (- 2000), surface_reelle_bati = F64 (Fin (- 50)),
             type_local = ''Maison''\<rparr>]"
  by (simp add: ex_negative_def normalize_eval)

text \<open>
  C4, as the code has it. When the float64 quotient of price and area is finite for every
  record of the dataset (no area is zero, no cell is infinite or NaN, no quotient
  overflows), the checked box replaces the price of every record by
  \<^verbatim>\<open>round(valeur_fonciere / surface_reelle_bati)\<close> as the code computes it: the float64
  quotient, rounded half to even and cast to int64, a rounded value outside the int64
  range becoming the least int64. No other field of a record changes. A record of price
  150000 and area 50 alone gets the price 3000. By \<open>truediv_finite\<close> the quotient of a
  record is finite whenever its price and area are finite, the area is not zero and the
  exact quotient is below \<open>2 ^ 1023\<close> in magnitude.
\<close>

theorem price_replaced_by_rounded_quotient:
  assumes "\<forall>r \<in> set df. \<exists>q. truediv (valeur_fonciere r) (surface_reelle_bati r) = Fin q"
  shows "(\<exists>out. normalization_engine True df = Inr out
           \<and> list_all2 (\<lambda>r r'. \<exists>q k.
                 truediv (valeur_fonciere r) (surface_reelle_bati r) = Fin q
                 \<and> k = round_half_even q
                 \<and> r' = r\<lparr>valeur_fonciere :=
                            I64 (if - (2 ^ 63) \<le> k \<and> k < 2 ^ 63 then k else - (2 ^ 63))\<rparr>)
               df out)
         \<and> normalization_engine True
             [r0\<lparr>valeur_fonciere := F64 (Fin 150000), surface_reelle_bati := F64 (Fin 50)\<rparr>]
           = Inr [r0\<lparr>valeur_fonciere := I64 3000, surface_reelle_bati := F64 (Fin 50)\<rparr>]"
proof
  show "\<exists>out. normalization_engine True df = Inr out
           \<and> list_all2 (\<lambda>r r'. \<exists>q k.
                 truediv (valeur_fonciere r) (surface_reelle_bati r) = Fin q
                 \<and> k = round_half_even q
                 \<and> r' = r\<lparr>valeur_fonciere :=
                            I64 (if - (2 ^ 63) \<le> k \<and> k < 2 ^ 63 then k else - (2 ^ 63))\<rparr>)
               df out"
    using assms
  proof (induction df)
    case Nil
    show ?case by (simp add: normalize_Nil)
  next
    case (Cons r df)
    then obtain q where q: "truediv (valeur_fonciere r) (surface_reelle_bati r) = Fin q"
      by auto
    from Cons obtain out where out: "normalization_engine True df = Inr out"
      "list_all2 (\<lambda>r r'. \<exists>q k.
                 truediv (valeur_fonciere r) (surface_reelle_bati r) = Fin q
                 \<and> k = round_half_even q
                 \<and> r' = r\<lparr>valeur_fonciere :=
                            I64 (if - (2 ^ 63) \<le> k \<and> k < 2 ^ 63 then k else - (2 ^ 63))\<rparr>)
               df out"
      by auto
    have "normalization_engine True (r # df)
        = Inr (r\<lparr>valeur_fonciere :=
                   I64 (if - (2 ^ 63) \<le> round_half_even q \<and> round_half_even q < 2 ^ 63
                        then round_half_even q else - (2 ^ 63))\<rparr> # out)"
      using q out(1) by (simp add: normalize_Cons cast_int64_of_int)
    with q out(2) show ?case by simp
  qed
  show "normalization_engine True
             [r0\<lparr>valeur_fonciere := F64 (Fin 150000), surface_reelle_bati := F64 (Fin 50)\<rparr>]
           = Inr [r0\<lparr>valeur_fonciere := I64 3000, surface_reelle_bati := F64 (Fin 50)\<rparr>]"
    by (simp add: normalize_eval)
qed

text \<open>The quotients of \<open>ex_rows\<close> are exact. Those of \<open>ex_inexact\<close> are not: the first,
  just below 1.5, is the float 1.5 and rounds to 2; the price of the second loses its
  last bit when it becomes a float64; the third is \<open>2 ^ 63\<close>, which no int64 holds.\<close>

theorem price_replaced_by_rounded_quotient_witness:
  "map (\<lambda>r. truediv (valeur_fonciere r) (surface_reelle_bati r)) ex_rows
     = [Fin 3000, Fin 2500, Fin 2500]
   \<and> normalization_engine True ex_rows = Inr ex_rows_per_area
   \<and> map (\<lambda>r. truediv (valeur_fonciere r) (surface_reelle_bati r)) ex_inexact
     = [Fin (3 / 2), Fin 9007199254740992, Fin 9223372036854775808]
   \<and> normalization_engine True ex_inexact = Inr ex_inexact_per_area"
proof -
  have q: "map (\<lambda>r. truediv (valeur_fonciere r) (surface_reelle_bati r)) ex_rows
     = [Fin 3000, Fin 2500, Fin 2500]"
    by (simp add: ex_rows_def normalize_eval)
  then have h: "\<forall>r \<in> set ex_rows.
      \<exists>q. truediv (valeur_fonciere r) (surface_reelle_bati r) = Fin q"
    by (simp add: ex_rows_def)
  from price_replaced_by_rounded_quotient [OF h]
  obtain out where "normalization_engine True ex_rows = Inr out"
    by blast
  moreover have "normalization_engine True ex_rows = Inr ex_rows_per_area"
    by (simp add: ex_rows_def ex_rows_per_area_def normalize_eval)
  moreover have "map (\<lambda>r. truediv (valeur_fonciere r) (surface_reelle_bati r)) ex_inexact
     = [Fin (3 / 2), Fin 9007199254740992, Fin 9223372036854775808]"
    by (simp add: ex_inexact_def normalize_eval)
  moreover have "normalization_engine True ex_inexact = Inr ex_inexact_per_area"
    by (simp add: ex_inexact_def ex_inexact_per_area_def normalize_eval)
  ultimately show ?thesis using q by simp
qed

text \<open>Where the quotient overflows, the cast raises as it does for an area of zero.\<close>

lemma overflowing_quotient_raises:
  "map (\<lambda>r. truediv (valeur_fonciere r) (surface_reelle_bati r)) ex_overflow = [PInf]
   \<and> normalization_engine True ex_overflow = Inl IntCastingNaNError"
  by (simp add: ex_overflow_def normalize_eval)

text \<open>The claim of C4 fails on a dataset that also holds a record of area zero: the
  cast raises for the whole column and the record of area 50 keeps its price.\<close>

theorem zero_area_elsewhere_counterexample:
  "map surface_reelle_bati ex_zero = [F64 (Fin 50), F64 (Fin 0)]
   \<and> normalization_engine True ex_zero = Inl IntCastingNaNError"
  by (simp add: ex_zero_def normalize_eval)

text \<open>
  C10. Whenever the normalization yields a frame, the property types of that frame are
  those of the frame it was given: enumerating the types before the normalization, as
  the code does, gives the list that enumerating them after it would give.
\<close>

theorem types_commute_with_normalization:
  "normalization_engine flag df = Inr out \<Longrightarrow> local_types_of out = local_types_of df"
  by (simp add: local_types_of_def normalize_type_local)

theorem types_commute_with_normalization_witness:
  "normalization_engine True ex_rows = Inr ex_rows_per_area
   \<and> local_types_of ex_rows_per_area = local_types_of ex_rows
   \<and> local_types_of ex_rows = [''Appartement'', ''Maison'']"
proof -
  have n: "normalization_engine True ex_rows = Inr ex_rows_per_area"
    by (simp add: ex_rows_def ex_rows_per_area_def normalize_eval)
  have t: "local_types_of ex_rows = [''Appartement'', ''Maison'']"
    by (simp add: ex_rows_def local_types_of_def unique_def)
  from n t types_commute_with_normalization [OF n] show ?thesis by simp
qed

section \<open>The stages of \<^verbatim>\<open>initial_request\<close>\<close>

lemma emit_simps [simp]:
  "calls (emit c w) = calls w @ [c]"
  "heap (emit c w) = heap w"
  "next_ref (emit c w) = next_ref w"
  "session_state (emit c w) = session_state w"
  by (simp_all add: emit_def)

lemma department_selectbox_eq:
  "department_selectbox inp w =
     (emit (Selectbox_departement departments 5) w, Inr (pick_department inp))"
  by (simp add: department_selectbox_def build_departments_eq index_06)

lemma year_selectbox_eq:
  assumes "index_of ''Vendus en 2023''
             (map (\<lambda>year. ''Vendus en '' @ year) (available_years_datagouv env)) = Some i"
  shows "year_selectbox env inp w =
     (emit (Selectbox_annee (map (\<lambda>year. ''Vendus en '' @ year) (available_years_datagouv env)) i) w,
      Inr (year_of_label (pick_year inp)))"
  using assms by (simp add: year_selectbox_def)

lemma default_year_exists:
  assumes "''2023'' \<in> set (available_years_datagouv env)"
  shows "\<exists>i. index_of ''Vendus en 2023''
             (map (\<lambda>year. ''Vendus en '' @ year) (available_years_datagouv env)) = Some i"
  using assms by (intro index_of_in_set) auto

lemma chatbot_widgets_eq:
  "chatbot_widgets inp w = w\<lparr>calls := calls w @ chatbot_trace inp\<rparr>"
  by (simp add: chatbot_widgets_def chatbot_trace_def emit_def)

lemma load_data_world:
  "fst (load_data env d y w) =
     emit (if str_in ''2024'' y then Call_fetch_data_BigQuery (bigquery_cred env) d
           else Call_fetch_data_gouv d y) w"
  by (simp add: load_data_def)

lemma load_data_result:
  "snd (load_data env d y w) =
     (if str_in ''2024'' y then fetch_data_BigQuery env (bigquery_cred env) d
      else fetch_data_gouv env d y)"
  by (simp add: load_data_def)


lemma setup_sidebar_calls:
  "calls (fst (setup_sidebar inp d y fetched w)) =
     calls w @ [Selectbox_type_de_bien (local_types_of (heap w fetched)) (''local_type_'' @ d @ ''_'' @ y),
                Checkbox_prix_au_m2]
       @ (case normalization_engine (pick_normalize inp) (heap w fetched) of
            Inl e \<Rightarrow> [] | Inr df \<Rightarrow> chatbot_trace inp)"
  by (simp add: setup_sidebar_def df_copy_def type_selectbox_def normalize_in_place_def
      chatbot_widgets_eq Let_def split: sum.splits)

lemma setup_sidebar_session:
  "session_state (fst (setup_sidebar inp d y fetched w)) =
     (session_state w)(''local_type_'' @ d @ ''_'' @ y \<mapsto>
        (case pick_local_type inp of None \<Rightarrow> PyNone | Some t \<Rightarrow> PyStr t))"
  by (simp add: setup_sidebar_def df_copy_def type_selectbox_def normalize_in_place_def
      chatbot_widgets_eq Let_def split: sum.splits)

lemma setup_sidebar_heap:
  "heap (fst (setup_sidebar inp d y fetched w)) =
     (heap w)(next_ref w :=
        (case normalization_engine (pick_normalize inp) (heap w fetched) of
           Inl e \<Rightarrow> heap w fetched | Inr df \<Rightarrow> df))"
  by (simp add: setup_sidebar_def df_copy_def type_selectbox_def normalize_in_place_def
      chatbot_widgets_eq Let_def split: sum.splits)

lemma setup_sidebar_next_ref:
  "next_ref (fst (setup_sidebar inp d y fetched w)) = Suc (next_ref w)"
  by (simp add: setup_sidebar_def df_copy_def type_selectbox_def normalize_in_place_def
      chatbot_widgets_eq Let_def split: sum.splits)

lemma setup_sidebar_result:
  "snd (setup_sidebar inp d y fetched w) =
     (case normalization_engine (pick_normalize inp) (heap w fetched) of
        Inl e \<Rightarrow> Inl e
      | Inr df \<Rightarrow> Inr (next_ref w,
          \<lparr>local_types = local_types_of (heap w fetched),
           selected_local_type = pick_local_type inp,
           normalize_by_area = pick_normalize inp,
           selected_plots = pick_plots inp,
           chatbot_checkbox = pick_chatbot inp,
           selected_model = pick_model inp,
           model_api_key = pick_api_key inp\<rparr>))"
  by (simp add: setup_sidebar_def df_copy_def type_selectbox_def normalize_in_place_def
      chatbot_widgets_eq Let_def split: sum.splits)

text \<open>The state in which the fetcher is called: both selectboxes shown, the postcode
  reset.\<close>

lemma initial_request_eq:
  assumes "index_of ''Vendus en 2023''
             (map (\<lambda>year. ''Vendus en '' @ year) (available_years_datagouv env)) = Some i"
  shows "initial_request env inp w =
     (let d = pick_department inp; y = year_of_label (pick_year inp);
          w3 = emit (Selectbox_annee (map (\<lambda>year. ''Vendus en '' @ year) (available_years_datagouv env)) i)
                 ((emit (Selectbox_departement departments 5) w)
                    \<lparr>session_state := reset_postcode d (session_state w)\<rparr>);
          w4 = fst (load_data env d y w3)
      in case snd (load_data env d y w3) of
           None \<Rightarrow> (w4, Inr \<lparr>selected_department = d, selected_year = y,
                              properties_input = None, sidebar = None\<rparr>)
         | Some fetched \<Rightarrow>
             (fst (setup_sidebar inp d y fetched w4),
              case snd (setup_sidebar inp d y fetched w4) of
                Inl e \<Rightarrow> Inl e
              | Inr (a, sb) \<Rightarrow> Inr \<lparr>selected_department = d, selected_year = y,
                                     properties_input = Some a, sidebar = Some sb\<rparr>))"
  by (simp add: initial_request_def department_selectbox_eq year_selectbox_eq [OF assms] Let_def
      split: prod.splits sum.splits option.splits)

section \<open>The choice of the data source\<close>




section \<open>The postcode of another department\<close>

lemma reset_postcode_previous:
  "reset_postcode d ss ''previous_selected_department'' = Some (PyStr d)"
  by (simp add: reset_postcode_def Let_def)

lemma reset_postcode_changed:
  assumes "ss ''previous_selected_department'' \<noteq> None"
    and "ss ''previous_selected_department'' \<noteq> Some (PyStr d)"
  shows "reset_postcode d ss ''selected_postcode'' = None"
    and "reset_postcode d ss ''selected_postcode_title'' = None"
  using assms by (auto simp: reset_postcode_def del_if_present_def Let_def)

lemma reset_postcode_unchanged:
  assumes "ss ''previous_selected_department'' = None
           \<or> ss ''previous_selected_department'' = Some (PyStr d)"
  shows "reset_postcode d ss ''selected_postcode'' = ss ''selected_postcode''"
    and "reset_postcode d ss ''selected_postcode_title'' = ss ''selected_postcode_title''"
  using assms by (auto simp: reset_postcode_def Let_def)

lemma reset_postcode_other:
  assumes "k \<noteq> ''previous_selected_department''" "k \<noteq> ''selected_postcode''"
    and "k \<noteq> ''selected_postcode_title''"
  shows "reset_postcode d ss k = ss k"
  using assms by (auto simp: reset_postcode_def del_if_present_def Let_def)

text \<open>The only other key an evaluation writes is that of the type selectbox, which
  begins with \<^verbatim>\<open>local_type_\<close>.\<close>

lemma initial_request_session:
  assumes "\<not> startswith k ''local_type_''"
  shows "session_state (fst (initial_request env inp w)) k =
           reset_postcode (pick_department inp) (session_state w) k"
proof (cases "index_of ''Vendus en 2023''
                (map (\<lambda>year. ''Vendus en '' @ year) (available_years_datagouv env))")
  case None
  then show ?thesis
    by (simp add: initial_request_def department_selectbox_eq year_selectbox_def)
next
  case (Some i)
  have "k \<noteq> ''local_type_'' @ s" for s
    using assms by (auto simp: startswith_def)
  then show ?thesis
    by (simp add: initial_request_eq [OF Some] Let_def load_data_world setup_sidebar_session
        split: option.splits)
qed

text \<open>
  C2. Whatever the evaluation does afterwards, the session it leaves is this: when a
  department was recorded before and the one just selected differs from it, neither the
  postcode nor the postcode title is stored any more, whether or not they were stored
  before; when no department was recorded or the same one is selected, both keys are as
  they were; and the department just selected is the one recorded.
\<close>

theorem postcode_reset_iff_department_changed:
  "(session_state w ''previous_selected_department'' \<noteq> None
      \<and> session_state w ''previous_selected_department'' \<noteq> Some (PyStr (pick_department inp))
      \<longrightarrow> session_state (fst (initial_request env inp w)) ''selected_postcode'' = None
        \<and> session_state (fst (initial_request env inp w)) ''selected_postcode_title'' = None)
   \<and> (session_state w ''previous_selected_department'' = None
      \<or> session_state w ''previous_selected_department'' = Some (PyStr (pick_department inp))
      \<longrightarrow> session_state (fst (initial_request env inp w)) ''selected_postcode''
            = session_state w ''selected_postcode''
        \<and> session_state (fst (initial_request env inp w)) ''selected_postcode_title''
            = session_state w ''selected_postcode_title'')
   \<and> session_state (fst (initial_request env inp w)) ''previous_selected_department''
        = Some (PyStr (pick_department inp))"
  by (simp add: initial_request_session startswith_def reset_postcode_previous
      reset_postcode_changed reset_postcode_unchanged)

theorem postcode_reset_iff_department_changed_witness:
  "session_state ex_world ''previous_selected_department'' = Some (PyStr ''75'')
   \<and> session_state ex_world ''selected_postcode'' = Some (PyStr ''75011'')
   \<and> session_state (fst (initial_request ex_env (ex_inputs ''06'' ''Vendus en 2022'' True) ex_world))
        ''selected_postcode'' = None
   \<and> session_state (fst (initial_request ex_env (ex_inputs ''75'' ''Vendus en 2022'' True) ex_world))
        ''selected_postcode'' = Some (PyStr ''75011'')
   \<and> session_state (fst (initial_request ex_env (ex_inputs ''06'' ''Vendus en 2022'' True) ex_world))
        ''previous_selected_department'' = Some (PyStr ''06'')"
  using postcode_reset_iff_department_changed
          [of ex_world "ex_inputs ''06'' ''Vendus en 2022'' True" ex_env]
        postcode_reset_iff_department_changed
          [of ex_world "ex_inputs ''75'' ''Vendus en 2022'' True" ex_env]
  by (simp add: ex_world_def ex_session_def ex_inputs_def)

section \<open>What an evaluation leaves behind\<close>

lemma initial_request_heap:
  assumes "index_of ''Vendus en 2023''
             (map (\<lambda>year. ''Vendus en '' @ year) (available_years_datagouv env)) = Some i"
  shows "heap (fst (initial_request env inp w)) =
     (case snd (load_data env (pick_department inp) (year_of_label (pick_year inp)) w) of
        None \<Rightarrow> heap w
      | Some fetched \<Rightarrow>
          (heap w)(next_ref w :=
             (case normalization_engine (pick_normalize inp) (heap w fetched) of
                Inl e \<Rightarrow> heap w fetched | Inr df \<Rightarrow> df)))"
  by (simp add: initial_request_eq [OF assms] Let_def load_data_world load_data_result
      setup_sidebar_heap split: option.splits sum.splits)

lemma initial_request_next_ref:
  assumes "index_of ''Vendus en 2023''
             (map (\<lambda>year. ''Vendus en '' @ year) (available_years_datagouv env)) = Some i"
  shows "next_ref w \<le> next_ref (fst (initial_request env inp w))"
  by (simp add: initial_request_eq [OF assms] Let_def load_data_world load_data_result
      setup_sidebar_next_ref split: option.splits)

lemma initial_request_result:
  assumes "index_of ''Vendus en 2023''
             (map (\<lambda>year. ''Vendus en '' @ year) (available_years_datagouv env)) = Some i"
  shows "snd (initial_request env inp w) =
     (case snd (load_data env (pick_department inp) (year_of_label (pick_year inp)) w) of
        None \<Rightarrow> Inr \<lparr>selected_department = pick_department inp,
                      selected_year = year_of_label (pick_year inp),
                      properties_input = None, sidebar = None\<rparr>
      | Some fetched \<Rightarrow>
          (case normalization_engine (pick_normalize inp) (heap w fetched) of
             Inl e \<Rightarrow> Inl e
           | Inr df \<Rightarrow>
               Inr \<lparr>selected_department = pick_department inp,
                    selected_year = year_of_label (pick_year inp),
                    properties_input = Some (next_ref w),
                    sidebar = Some
                      \<lparr>local_types = local_types_of (heap w fetched),
                       selected_local_type = pick_local_type inp,
                       normalize_by_area = pick_normalize inp,
                       selected_plots = pick_plots inp,
                       chatbot_checkbox = pick_chatbot inp,
                       selected_model = pick_model inp,
                       model_api_key = pick_api_key inp\<rparr>\<rparr>))"
  by (simp add: initial_request_eq [OF assms] Let_def load_data_world load_data_result
      setup_sidebar_result split: option.splits sum.splits)

lemma result_frame_initial_request:
  assumes "index_of ''Vendus en 2023''
             (map (\<lambda>year. ''Vendus en '' @ year) (available_years_datagouv env)) = Some i"
  shows "result_frame (initial_request env inp w) =
     (case snd (load_data env (pick_department inp) (year_of_label (pick_year inp)) w) of
        None \<Rightarrow> Inr None
      | Some fetched \<Rightarrow>
          (case normalization_engine (pick_normalize inp) (heap w fetched) of
             Inl e \<Rightarrow> Inl e | Inr df \<Rightarrow> Inr (Some df)))"
  by (simp add: result_frame_def initial_request_result [OF assms] initial_request_heap [OF assms]
      split: option.splits sum.splits)

lemma load_data_any_world:
  "snd (load_data env d y w) = snd (load_data env d y w')"
  by (simp add: load_data_result)

text \<open>
  C9. With the box unchecked, the frame an evaluation leaves in
  \<^verbatim>\<open>self.properties_input\<close> has exactly the rows of the frame that was fetched, and no
  exception is raised: the normalization returns any dataset as it is.
\<close>

theorem unchecked_box_passes_dataset_through:
  assumes "''2023'' \<in> set (available_years_datagouv env)"
    and "snd (load_data env (pick_department inp) (year_of_label (pick_year inp)) w)
           = Some fetched"
    and "\<not> pick_normalize inp"
  shows "result_frame (initial_request env inp w) = Inr (Some (heap w fetched))
     \<and> normalization_engine False df = Inr df"
proof -
  from default_year_exists [OF assms(1)] obtain i where
    i: "index_of ''Vendus en 2023''
          (map (\<lambda>year. ''Vendus en '' @ year) (available_years_datagouv env)) = Some i" ..
  show ?thesis
    using assms(2,3) by (simp add: result_frame_initial_request [OF i] normalize_False)
qed

lemma ex_year_2022: "year_of_label ''Vendus en 2022'' = ''2022''"
  by (simp add: year_of_label_def)

lemma ex_catalogue: "''2023'' \<in> set (available_years_datagouv ex_env)"
  by (simp add: ex_env_def)

lemma ex_default_year:
  "index_of ''Vendus en 2023''
     (map (\<lambda>year. ''Vendus en '' @ year) (available_years_datagouv ex_env)) = Some 2"
  by (simp add: ex_env_def)

lemma ex_load_06:
  "snd (load_data ex_env (pick_department (ex_inputs ''06'' ''Vendus en 2022'' flag))
          (year_of_label (pick_year (ex_inputs ''06'' ''Vendus en 2022'' flag))) w) = Some 0"
  by (simp add: ex_inputs_def ex_year_2022 load_data_result ex_env_def)

theorem unchecked_box_passes_dataset_through_witness:
  "''2023'' \<in> set (available_years_datagouv ex_env)
   \<and> snd (load_data ex_env (pick_department (ex_inputs ''06'' ''Vendus en 2022'' False))
          (year_of_label (pick_year (ex_inputs ''06'' ''Vendus en 2022'' False))) ex_world) = Some 0
   \<and> \<not> pick_normalize (ex_inputs ''06'' ''Vendus en 2022'' False)
   \<and> result_frame (initial_request ex_env (ex_inputs ''06'' ''Vendus en 2022'' False) ex_world)
       = Inr (Some ex_rows)"
proof -
  have h: "\<not> pick_normalize (ex_inputs ''06'' ''Vendus en 2022'' False)"
    by (simp add: ex_inputs_def)
  have r: "heap ex_world 0 = ex_rows" by (simp add: ex_world_def)
  note l = ex_load_06 [of False ex_world]
  from unchecked_box_passes_dataset_through [OF ex_catalogue l h, where df = ex_rows]
  have "result_frame (initial_request ex_env (ex_inputs ''06'' ''Vendus en 2022'' False) ex_world)
       = Inr (Some ex_rows)"
    by (simp add: r)
  with ex_catalogue l h show ?thesis by blast
qed

text \<open>
  C6. Let the frame the fetcher returns be an object that exists when the evaluation
  starts. The frame the evaluation leaves is the normalization of the rows of the fetched
  frame under the flag and depends on nothing else; no frame that existed before is
  changed, the fetched one included, since the column is overwritten in a copy; and any
  later evaluation for the same department and year, from the state the first one has
  left and under whichever flag, again yields the normalization of the rows as they
  were fetched.
\<close>

theorem normalization_is_pure:
  assumes "''2023'' \<in> set (available_years_datagouv env)"
    and "snd (load_data env (pick_department inp) (year_of_label (pick_year inp)) w)
           = Some fetched"
    and "fetched < next_ref w"
  shows "result_frame (initial_request env inp w) =
           (case normalization_engine (pick_normalize inp) (heap w fetched) of
              Inl e \<Rightarrow> Inl e | Inr df \<Rightarrow> Inr (Some df))
     \<and> (\<forall>a < next_ref w. heap (fst (initial_request env inp w)) a = heap w a)
     \<and> (\<forall>inp2. pick_department inp2 = pick_department inp \<and> pick_year inp2 = pick_year inp
          \<longrightarrow> result_frame (initial_request env inp2 (fst (initial_request env inp w))) =
                (case normalization_engine (pick_normalize inp2) (heap w fetched) of
                   Inl e \<Rightarrow> Inl e | Inr df \<Rightarrow> Inr (Some df)))"
proof -
  from default_year_exists [OF assms(1)] obtain i where
    i: "index_of ''Vendus en 2023''
          (map (\<lambda>year. ''Vendus en '' @ year) (available_years_datagouv env)) = Some i" ..
  let ?w' = "fst (initial_request env inp w)"
  have first: "result_frame (initial_request env inp w) =
           (case normalization_engine (pick_normalize inp) (heap w fetched) of
              Inl e \<Rightarrow> Inl e | Inr df \<Rightarrow> Inr (Some df))"
    using assms(2) by (simp add: result_frame_initial_request [OF i])
  have kept: "heap ?w' a = heap w a" if "a < next_ref w" for a
    using that assms(2) by (simp add: initial_request_heap [OF i])
  have again: "result_frame (initial_request env inp2 ?w') =
                (case normalization_engine (pick_normalize inp2) (heap w fetched) of
                   Inl e \<Rightarrow> Inl e | Inr df \<Rightarrow> Inr (Some df))"
    if "pick_department inp2 = pick_department inp" "pick_year inp2 = pick_year inp" for inp2
  proof -
    have "snd (load_data env (pick_department inp2) (year_of_label (pick_year inp2)) ?w')
            = Some fetched"
      using that assms(2) load_data_any_world [of env _ _ ?w' w] by simp
    then show ?thesis
      by (simp add: result_frame_initial_request [OF i] kept [OF assms(3)])
  qed
  from first kept again show ?thesis by blast
qed

theorem normalization_is_pure_witness:
  "''2023'' \<in> set (available_years_datagouv ex_env)
   \<and> snd (load_data ex_env (pick_department (ex_inputs ''06'' ''Vendus en 2022'' True))
          (year_of_label (pick_year (ex_inputs ''06'' ''Vendus en 2022'' True))) ex_world) = Some 0
   \<and> 0 < next_ref ex_world
   \<and> result_frame (initial_request ex_env (ex_inputs ''06'' ''Vendus en 2022'' True) ex_world)
       = Inr (Some ex_rows_per_area)
   \<and> heap (fst (initial_request ex_env (ex_inputs ''06'' ''Vendus en 2022'' True) ex_world)) 0
       = ex_rows
   \<and> result_frame (initial_request ex_env (ex_inputs ''06'' ''Vendus en 2022'' True)
        (fst (initial_request ex_env (ex_inputs ''06'' ''Vendus en 2022'' True) ex_world)))
       = Inr (Some ex_rows_per_area)"
proof -
  have h: "0 < next_ref ex_world" by (simp add: ex_world_def)
  have n: "normalization_engine True ex_rows = Inr ex_rows_per_area"
    by (simp add: ex_rows_def ex_rows_per_area_def normalize_eval)
  have f: "pick_normalize (ex_inputs ''06'' ''Vendus en 2022'' True)"
    by (simp add: ex_inputs_def)
  have r: "heap ex_world 0 = ex_rows" by (simp add: ex_world_def)
  note l = ex_load_06 [of True ex_world]
  from normalization_is_pure [OF ex_catalogue l h]
  show ?thesis
    using ex_catalogue l h by (simp add: n f r)
qed

section \<open>What \<^verbatim>\<open>App.__init__\<close> shows\<close>

lemma local_types_of_empty: "local_types_of df = [] \<Longrightarrow> df = []"
proof -
  assume "local_types_of df = []"
  then have "length (sort (unique (map type_local df))) = 0"
    by (simp add: local_types_of_def)
  then have "unique (map type_local df) = []" by simp
  then show "df = []" by (simp add: unique_def)
qed

lemma create_plots_not_in_chatbot_trace: "Create_plots \<notin> set (chatbot_trace inp)"
  by (simp add: chatbot_trace_def)

text \<open>The world in which \<^verbatim>\<open>initial_request\<close> starts: the four calls that precede the
  sidebar have been made and the session has been initialised.\<close>

lemma app_init_unavailable:
  assumes "index_of ''Vendus en 2023''
             (map (\<lambda>year. ''Vendus en '' @ year) (available_years_datagouv env)) = Some i"
    and "snd (load_data env (pick_department inp) (year_of_label (pick_year inp)) w) = None"
  shows "new_calls w (fst (app_init env inp w)) =
       [Init_session_state, Markdown, Fetch_summarized_data, Display_sidebar,
        Selectbox_departement departments 5,
        Selectbox_annee (map (\<lambda>year. ''Vendus en '' @ year) (available_years_datagouv env)) i,
        if str_in ''2024'' (year_of_label (pick_year inp))
        then Call_fetch_data_BigQuery (bigquery_cred env) (pick_department inp)
        else Call_fetch_data_gouv (pick_department inp) (year_of_label (pick_year inp))]"
    and "heap (fst (app_init env inp w)) = heap w"
    and "snd (app_init env inp w) =
       Inr \<lparr>selected_department = pick_department inp,
            selected_year = year_of_label (pick_year inp),
            properties_input = None, sidebar = None\<rparr>"
  using assms(2)
  by (simp_all add: app_init_def Let_def initial_request_eq [OF assms(1)] load_data_world
      load_data_result show_result_def new_calls_def split: if_splits)

lemma app_init_empty:
  assumes "index_of ''Vendus en 2023''
             (map (\<lambda>year. ''Vendus en '' @ year) (available_years_datagouv env)) = Some i"
    and "snd (load_data env (pick_department inp) (year_of_label (pick_year inp)) w)
           = Some fetched"
    and "heap w fetched = []"
  shows "new_calls w (fst (app_init env inp w)) =
       [Init_session_state, Markdown, Fetch_summarized_data, Display_sidebar,
        Selectbox_departement departments 5,
        Selectbox_annee (map (\<lambda>year. ''Vendus en '' @ year) (available_years_datagouv env)) i,
        if str_in ''2024'' (year_of_label (pick_year inp))
        then Call_fetch_data_BigQuery (bigquery_cred env) (pick_department inp)
        else Call_fetch_data_gouv (pick_department inp) (year_of_label (pick_year inp)),
        Selectbox_type_de_bien []
          (''local_type_'' @ pick_department inp @ ''_'' @ year_of_label (pick_year inp)),
        Checkbox_prix_au_m2]
       @ chatbot_trace inp
       @ [Sidebar_error_no_info (pick_department inp) (year_of_label (pick_year inp))]"
    and "\<exists>a. snd (app_init env inp w) = Inr a"
  using assms(2,3)
  by (simp_all add: app_init_def Let_def initial_request_eq [OF assms(1)] load_data_world
      load_data_result setup_sidebar_calls setup_sidebar_result show_result_def new_calls_def
      normalize_Nil local_types_of_def unique_def split: if_splits)

text \<open>
  C5, as the code has it. When the fetcher returns \<open>None\<close>, the evaluation makes no
  call after that of the fetcher: neither the type selectbox nor the normalization
  checkbox is reached, no frame is touched, nothing is plotted, and this file shows
  no message either, since \<^verbatim>\<open>__init__\<close> reports only on a fetched frame whose list of
  types is empty.
\<close>

theorem unavailable_ends_evaluation_silently:
  assumes "''2023'' \<in> set (available_years_datagouv env)"
    and "snd (load_data env (pick_department inp) (year_of_label (pick_year inp)) w) = None"
  shows "(\<exists>i. new_calls w (fst (app_init env inp w)) =
       [Init_session_state, Markdown, Fetch_summarized_data, Display_sidebar,
        Selectbox_departement departments 5,
        Selectbox_annee (map (\<lambda>year. ''Vendus en '' @ year) (available_years_datagouv env)) i,
        if str_in ''2024'' (year_of_label (pick_year inp))
        then Call_fetch_data_BigQuery (bigquery_cred env) (pick_department inp)
        else Call_fetch_data_gouv (pick_department inp) (year_of_label (pick_year inp))])
     \<and> heap (fst (app_init env inp w)) = heap w
     \<and> snd (app_init env inp w) =
       Inr \<lparr>selected_department = pick_department inp,
            selected_year = year_of_label (pick_year inp),
            properties_input = None, sidebar = None\<rparr>"
proof -
  from default_year_exists [OF assms(1)] obtain i where
    i: "index_of ''Vendus en 2023''
          (map (\<lambda>year. ''Vendus en '' @ year) (available_years_datagouv env)) = Some i" ..
  from app_init_unavailable [OF i assms(2)] show ?thesis by blast
qed

lemma ex_load_2A:
  "snd (load_data ex_env (pick_department (ex_inputs ''2A'' ''Vendus en 2022'' flag))
          (year_of_label (pick_year (ex_inputs ''2A'' ''Vendus en 2022'' flag))) w) = None"
  by (simp add: ex_inputs_def ex_year_2022 load_data_result ex_env_def)

theorem unavailable_ends_evaluation_silently_witness:
  "''2023'' \<in> set (available_years_datagouv ex_env)
   \<and> snd (load_data ex_env (pick_department (ex_inputs ''2A'' ''Vendus en 2022'' True))
          (year_of_label (pick_year (ex_inputs ''2A'' ''Vendus en 2022'' True))) ex_world) = None
   \<and> heap (fst (app_init ex_env (ex_inputs ''2A'' ''Vendus en 2022'' True) ex_world))
       = heap ex_world
   \<and> snd (app_init ex_env (ex_inputs ''2A'' ''Vendus en 2022'' True) ex_world) =
       Inr \<lparr>selected_department = ''2A'', selected_year = ''2022'',
            properties_input = None, sidebar = None\<rparr>"
proof -
  note l = ex_load_2A [of True ex_world]
  from unavailable_ends_evaluation_silently [OF ex_catalogue l]
  show ?thesis
    using ex_catalogue l by (simp add: ex_inputs_def ex_year_2022)
qed

text \<open>The claim of C5 fails on its second half: for department 2A, which the archive does
  not hold, the evaluation ends with the call of the fetcher and shows no message.\<close>

theorem unavailable_shows_no_message_counterexample:
  "snd (load_data ex_env ''2A'' ''2022'' ex_world) = None
   \<and> new_calls ex_world (fst (app_init ex_env (ex_inputs ''2A'' ''Vendus en 2022'' True) ex_world)) =
       [Init_session_state, Markdown, Fetch_summarized_data, Display_sidebar,
        Selectbox_departement departments 5,
        Selectbox_annee
          [''Vendus en 2021'', ''Vendus en 2022'', ''Vendus en 2023'', ''Vendus en 2024''] 2,
        Call_fetch_data_gouv ''2A'' ''2022'']
   \<and> Sidebar_error_no_info ''2A'' ''2022''
       \<notin> set (new_calls ex_world
                (fst (app_init ex_env (ex_inputs ''2A'' ''Vendus en 2022'' True) ex_world)))"
proof -
  have "snd (load_data ex_env ''2A'' ''2022'' ex_world) = None"
    by (simp add: load_data_result ex_env_def)
  moreover have "new_calls ex_world
        (fst (app_init ex_env (ex_inputs ''2A'' ''Vendus en 2022'' True) ex_world)) =
       [Init_session_state, Markdown, Fetch_summarized_data, Display_sidebar,
        Selectbox_departement departments 5,
        Selectbox_annee
          [''Vendus en 2021'', ''Vendus en 2022'', ''Vendus en 2023'', ''Vendus en 2024''] 2,
        Call_fetch_data_gouv ''2A'' ''2022'']"
    using app_init_unavailable(1) [OF ex_default_year ex_load_2A [of True ex_world]]
    by (simp add: ex_inputs_def ex_year_2022 ex_env_def)
  ultimately show ?thesis by simp
qed

text \<open>
  C8, as the code has it. When a frame was fetched and its list of property types is
  empty, the evaluation ends by showing the sidebar error formatted with the selected
  department and year, and does not plot: after the widgets of the sidebar, that error
  is the last call, and \<^verbatim>\<open>create_plots\<close> is not among the calls. This is not what
  the file does when nothing was fetched, where it shows no message.
\<close>

theorem empty_type_list_is_reported:
  assumes "''2023'' \<in> set (available_years_datagouv env)"
    and "snd (load_data env (pick_department inp) (year_of_label (pick_year inp)) w)
           = Some fetched"
    and "local_types_of (heap w fetched) = []"
  shows "(\<exists>i. new_calls w (fst (app_init env inp w)) =
       [Init_session_state, Markdown, Fetch_summarized_data, Display_sidebar,
        Selectbox_departement departments 5,
        Selectbox_annee (map (\<lambda>year. ''Vendus en '' @ year) (available_years_datagouv env)) i,
        if str_in ''2024'' (year_of_label (pick_year inp))
        then Call_fetch_data_BigQuery (bigquery_cred env) (pick_department inp)
        else Call_fetch_data_gouv (pick_department inp) (year_of_label (pick_year inp)),
        Selectbox_type_de_bien []
          (''local_type_'' @ pick_department inp @ ''_'' @ year_of_label (pick_year inp)),
        Checkbox_prix_au_m2]
       @ chatbot_trace inp
       @ [Sidebar_error_no_info (pick_department inp) (year_of_label (pick_year inp))])
     \<and> Create_plots \<notin> set (new_calls w (fst (app_init env inp w)))
     \<and> (\<exists>a. snd (app_init env inp w) = Inr a)"
proof -
  from default_year_exists [OF assms(1)] obtain i where
    i: "index_of ''Vendus en 2023''
          (map (\<lambda>year. ''Vendus en '' @ year) (available_years_datagouv env)) = Some i" ..
  have e: "heap w fetched = []"
    using assms(3) by (rule local_types_of_empty)
  note c = app_init_empty [OF i assms(2) e]
  have "Create_plots \<notin> set (new_calls w (fst (app_init env inp w)))"
    by (simp add: c(1) create_plots_not_in_chatbot_trace)
  with c show ?thesis by blast
qed

lemma ex_load_07:
  "snd (load_data ex_env (pick_department (ex_inputs ''07'' ''Vendus en 2022'' flag))
          (year_of_label (pick_year (ex_inputs ''07'' ''Vendus en 2022'' flag))) w) = Some 1"
  by (simp add: ex_inputs_def ex_year_2022 load_data_result ex_env_def)

theorem empty_type_list_is_reported_witness:
  "''2023'' \<in> set (available_years_datagouv ex_env)
   \<and> snd (load_data ex_env (pick_department (ex_inputs ''07'' ''Vendus en 2022'' True))
          (year_of_label (pick_year (ex_inputs ''07'' ''Vendus en 2022'' True))) ex_world) = Some 1
   \<and> local_types_of (heap ex_world 1) = []
   \<and> last (new_calls ex_world
             (fst (app_init ex_env (ex_inputs ''07'' ''Vendus en 2022'' True) ex_world)))
       = Sidebar_error_no_info ''07'' ''2022''
   \<and> Create_plots \<notin> set (new_calls ex_world
             (fst (app_init ex_env (ex_inputs ''07'' ''Vendus en 2022'' True) ex_world)))"
proof -
  note l = ex_load_07 [of True ex_world]
  have t: "local_types_of (heap ex_world 1) = []"
    by (simp add: ex_world_def local_types_of_def unique_def)
  from empty_type_list_is_reported [OF ex_catalogue l t]
  have "last (new_calls ex_world
             (fst (app_init ex_env (ex_inputs ''07'' ''Vendus en 2022'' True) ex_world)))
       = Sidebar_error_no_info ''07'' ''2022''"
    and "Create_plots \<notin> set (new_calls ex_world
             (fst (app_init ex_env (ex_inputs ''07'' ''Vendus en 2022'' True) ex_world)))"
    by (auto simp: ex_inputs_def ex_year_2022)
  with ex_catalogue l t show ?thesis by blast
qed

text \<open>The claim of C8 fails on its parenthesis: the empty frame of department 07 is
  answered with the sidebar error, the missing frame of department 2A with no message,
  so the two cases are not treated alike.\<close>

theorem empty_frame_unlike_unavailable_counterexample:
  "snd (load_data ex_env ''07'' ''2022'' ex_world) = Some 1
   \<and> local_types_of (heap ex_world 1) = []
   \<and> snd (load_data ex_env ''2A'' ''2022'' ex_world) = None
   \<and> Sidebar_error_no_info ''07'' ''2022''
       \<in> set (new_calls ex_world
                (fst (app_init ex_env (ex_inputs ''07'' ''Vendus en 2022'' True) ex_world)))
   \<and> Sidebar_error_no_info ''2A'' ''2022''
       \<notin> set (new_calls ex_world
                (fst (app_init ex_env (ex_inputs ''2A'' ''Vendus en 2022'' True) ex_world)))"
proof -
  have e: "heap ex_world 1 = []" by (simp add: ex_world_def)
  have "Sidebar_error_no_info ''07'' ''2022''
       \<in> set (new_calls ex_world
                (fst (app_init ex_env (ex_inputs ''07'' ''Vendus en 2022'' True) ex_world)))"
    using app_init_empty(1) [OF ex_default_year ex_load_07 [of True ex_world] e]
    by (simp add: ex_inputs_def ex_year_2022)
  moreover have "Sidebar_error_no_info ''2A'' ''2022''
       \<notin> set (new_calls ex_world
                (fst (app_init ex_env (ex_inputs ''2A'' ''Vendus en 2022'' True) ex_world)))"
    using app_init_unavailable(1) [OF ex_default_year ex_load_2A [of True ex_world]]
    by (simp add: ex_inputs_def ex_year_2022)
  moreover have "local_types_of (heap ex_world 1) = []"
    by (simp add: ex_world_def local_types_of_def unique_def)
  ultimately show ?thesis
    by (simp add: load_data_result ex_env_def)
qed

end
